theory Spec2Isabelle
  imports Main "HOL-Library.Word"
begin

section \<open>JavaScript values\<close>

text \<open>
  A JavaScript string is a sequence of UTF-16 code units. String literals of the source
  that are plain ASCII are written through \<open>ascii\<close>.
\<close>

type_synonym jsstring = "16 word list"

definition ascii :: "string \<Rightarrow> jsstring" where
  "ascii s = map of_char s"

text \<open>
  JSON values as they occur in cell metadata. A missing key (\<open>undefined\<close>) is \<open>None\<close>
  of the surrounding map. Numbers are restricted to integers.
\<close>

datatype json =
    JNull
  | JBool bool
  | JNum int
  | JStr jsstring
  | JArr "json list"
  | JObj "(jsstring \<times> json) list"

type_synonym jsobject = "(jsstring \<times> json) list"

text \<open>JavaScript truthiness, as tested by \<open>if (args.current['editable'])\<close>.\<close>

fun truthy :: "json option \<Rightarrow> bool" where
  "truthy None = False"
| "truthy (Some JNull) = False"
| "truthy (Some (JBool b)) = b"
| "truthy (Some (JNum n)) = (n \<noteq> 0)"
| "truthy (Some (JStr s)) = (s \<noteq> [])"
| "truthy (Some (JArr xs)) = True"
| "truthy (Some (JObj kvs)) = True"

text \<open>Object spread \<open>{ ...obj, k: v }\<close>: an existing key keeps its place, a new key goes last.\<close>

fun obj_assign :: "jsstring \<Rightarrow> json \<Rightarrow> jsobject \<Rightarrow> jsobject" where
  "obj_assign k v [] = [(k, v)]"
| "obj_assign k v ((k', v') # kvs) =
     (if k' = k then (k, v) # kvs else (k', v') # obj_assign k v kvs)"

text \<open>The metadata keys named in the source.\<close>

definition k_editable :: jsstring where "k_editable = ascii ''editable''"
definition k_jupyter :: jsstring where "k_jupyter = ascii ''jupyter''"
definition k_scrolled :: jsstring where "k_scrolled = ascii ''scrolled''"
definition k_collapsed :: jsstring where "k_collapsed = ascii ''collapsed''"
definition k_cellId :: jsstring where "k_cellId = ascii ''cellId''"

text \<open>
  An execution count is an integer-valued JavaScript number. The model carries the safe
  integers, from \<open>-2\<^sup>5\<^sup>3\<close> to \<open>2\<^sup>5\<^sup>3 - 1\<close>, as the signed values of a 54-bit word; no
  arithmetic is done on counts. In this range the template literal \<open>`${n}`\<close> prints the
  decimal digits, with a sign when negative (exponent notation starts at \<open>10\<^sup>2\<^sup>1\<close>).
\<close>

type_synonym js_integer = "54 word"

fun digits :: "nat \<Rightarrow> jsstring" where
  "digits n =
     (if n < 10 then [of_nat (48 + n)] else digits (n div 10) @ [of_nat (48 + n mod 10)])"

definition number_to_string :: "js_integer \<Rightarrow> jsstring" where
  "number_to_string n =
     (if sint n < 0 then ascii ''-'' @ digits (nat (- sint n)) else digits (nat (sint n)))"

text \<open>
  \<open>String.prototype.trim\<close> removes white space and line terminators at both ends. The
  code units below are the ones ECMAScript lists (TAB, LF, VT, FF, CR, SP, NBSP, the
  Unicode space separators, LS, PS and the byte order mark).
\<close>

definition js_whitespace :: "16 word \<Rightarrow> bool" where
  "js_whitespace u \<longleftrightarrow>
     u \<in> {0x09, 0x0A, 0x0B, 0x0C, 0x0D, 0x20, 0xA0, 0x1680,
          0x2000, 0x2001, 0x2002, 0x2003, 0x2004, 0x2005, 0x2006, 0x2007, 0x2008, 0x2009,
          0x200A, 0x2028, 0x2029, 0x202F, 0x205F, 0x3000, 0xFEFF}"

definition trim :: "jsstring \<Rightarrow> jsstring" where
  "trim s = rev (dropWhile js_whitespace (rev (dropWhile js_whitespace s)))"

section \<open>The record store\<close>

text \<open>
  The fields of one cell record. A cell widget holds a reference to the record; writes go
  through transactions and are reported to the registered field listeners.
\<close>

record cell_data =
  source :: jsstring
  metadata :: "jsstring \<rightharpoonup> json"
  executionCount :: "js_integer option"
  trusted :: bool
  outputs :: "json list"
  record_id :: jsstring

datatype field_write =
    SetExecutionCount "js_integer option"
  | SetTrusted bool
  | UpdateMetadata jsobject
  | ClearOutputs

text \<open>
  Modelled from the spec: the map field of the record store (\<open>DatastoreExt.updateField\<close> on
  \<open>metadata\<close>) is not among the sources. An update sets the given keys; the value \<open>null\<close>
  removes the key ("the key is removed (set to null)").
\<close>

fun MapField_update :: "jsobject \<Rightarrow> (jsstring \<rightharpoonup> json) \<Rightarrow> (jsstring \<rightharpoonup> json)" where
  "MapField_update [] m = m"
| "MapField_update ((k, v) # kvs) m =
     MapField_update kvs (if v = JNull then m(k := None) else m(k \<mapsto> v))"

text \<open>
  Modelled from the spec: a field subscription delivers \<open>{current, previous}\<close> diffs. For a
  map field both hold the changed keys only; a key that is absent on one side is \<open>null\<close>
  there.
\<close>

record change =
  previous :: "jsstring \<rightharpoonup> json"
  current :: "jsstring \<rightharpoonup> json"

definition MapField_change :: "(jsstring \<rightharpoonup> json) \<Rightarrow> jsobject \<Rightarrow> change" where
  "MapField_change m upd =
     \<lparr> previous = (\<lambda>k. if k \<in> fst ` set upd
                         then Some (case m k of None \<Rightarrow> JNull | Some v \<Rightarrow> v) else None),
       current = map_of upd \<rparr>"

fun apply_write :: "field_write \<Rightarrow> cell_data \<Rightarrow> cell_data" where
  "apply_write (SetExecutionCount n) d = d\<lparr>executionCount := n\<rparr>"
| "apply_write (SetTrusted b) d = d\<lparr>trusted := b\<rparr>"
| "apply_write (UpdateMetadata upd) d = d\<lparr>metadata := MapField_update upd (metadata d)\<rparr>"
| "apply_write ClearOutputs d = d\<lparr>outputs := []\<rparr>"

section \<open>Cell widgets\<close>

datatype cell_type = Code | Markdown | Raw

datatype widget =
    InputCollapserW | InputAreaW | InputPlaceholderW
  | OutputCollapserW | OutputAreaW | OutputPlaceholderW

text \<open>
  The children of a panel layout, in order. \<open>addWidget\<close> appends the widget, moving it to
  the end when the layout already holds it; \<open>removeWidget\<close> (also the effect of
  \<open>widget.parent = null\<close>) takes it out.
\<close>

definition removeWidget :: "widget \<Rightarrow> widget list \<Rightarrow> widget list" where
  "removeWidget w ws = removeAll w ws"

definition addWidget :: "widget \<Rightarrow> widget list \<Rightarrow> widget list" where
  "addWidget w ws = removeAll w ws @ [w]"

type_synonym future = nat

text \<open>
  The effects a cell has on its collaborators, in the order they happen: transactions of
  the record store with the writes inside them, execution requests sent to the kernel, and
  prompt texts handed to the input area.
\<close>

datatype event =
    TxBegin
  | TxEnd
  | Write field_write
  | KernelExecute jsstring jsobject
  | PromptSet jsstring

text \<open>
  The state of one cell widget. The fields from \<open>outputHidden\<close> on belong to
  \<open>CodeCell\<close>; \<open>outputsScrolled\<close> has no initialiser in the source and starts
  undefined (\<open>None\<close>). CSS classes and the options of the editor widget are
  presentation only and are left out. Futures are objects compared by identity: their
  identities are drawn from the counter \<open>next_future\<close>. \<open>isDisposed\<close> stands for the
  references that \<open>dispose\<close> sets to null.
\<close>

record cell =
  ctype :: cell_type
  data :: cell_data
  readOnly :: bool
  inputHidden :: bool
  inputWrapper :: "widget list"
  syncCollapse :: bool
  syncEditable :: bool
  prompt :: jsstring
  update_pending :: bool
  outputHidden :: bool
  outputsScrolled :: "bool option"
  outputWrapper :: "widget list"
  outputWrapper_isHidden :: bool
  syncScrolled :: bool
  savingMetadata :: bool
  outputArea_future :: "future option"
  next_future :: future
  isDisposed :: bool
  trace :: "event list"

text \<open>
  Modelled from the spec: \<open>DatastoreExt.withTransaction\<close> is not among the sources. All
  writes of one transaction are applied together; the listeners are notified after the
  commit, which is written out at each call site.
\<close>

definition transaction :: "field_write list \<Rightarrow> cell \<Rightarrow> cell" where
  "transaction ws c =
     c\<lparr> data := fold apply_write ws (data c),
        trace := trace c @ [TxBegin] @ map Write ws @ [TxEnd] \<rparr>"

text \<open>
  Modelled from the spec: \<open>InputArea.setPrompt\<close> is not among the sources; it shows the
  given text as the prompt of the cell.
\<close>

definition setPrompt :: "jsstring \<Rightarrow> cell \<Rightarrow> cell" where
  "setPrompt v c = c\<lparr> prompt := v, trace := trace c @ [PromptSet v] \<rparr>"

text \<open>\<open>Widget.update\<close> posts an update request, handled later.\<close>

definition update :: "cell \<Rightarrow> cell" where
  "update c = c\<lparr> update_pending := True \<rparr>"

subsection \<open>Collapse and scrolled state: disabled bodies\<close>

text \<open>
  The bodies of these six methods are commented out in the source: each returns without
  doing anything.
\<close>

definition Cell_saveCollapseState :: "cell \<Rightarrow> cell" where
  "Cell_saveCollapseState c = c"

definition Cell_loadCollapseState :: "cell \<Rightarrow> cell" where
  "Cell_loadCollapseState c = c"

definition CodeCell_saveCollapseState :: "cell \<Rightarrow> cell" where
  "CodeCell_saveCollapseState c = c"

definition CodeCell_loadCollapseState :: "cell \<Rightarrow> cell" where
  "CodeCell_loadCollapseState c = c"

definition saveScrolledState :: "cell \<Rightarrow> cell" where
  "saveScrolledState c = c"

definition loadScrolledState :: "cell \<Rightarrow> cell" where
  "loadScrolledState c = c"

text \<open>Dynamic dispatch of the overridden methods on the class of the cell.\<close>

definition saveCollapseState :: "cell \<Rightarrow> cell" where
  "saveCollapseState c =
     (if ctype c = Code then CodeCell_saveCollapseState c else Cell_saveCollapseState c)"

definition loadCollapseState :: "cell \<Rightarrow> cell" where
  "loadCollapseState c =
     (if ctype c = Code then CodeCell_loadCollapseState c else Cell_loadCollapseState c)"

subsection \<open>Editable state\<close>

text \<open>
  \<open>readOnly\<close> (setter), \<open>saveEditableState\<close>, \<open>loadEditableState\<close> and the metadata
  listener call each other: a save commits a transaction, after which the store notifies
  the cell's own metadata listener, which may load, which sets \<open>readOnly\<close>, which may
  save.
\<close>

function
  saveEditableState :: "cell \<Rightarrow> cell" and
  loadEditableState :: "cell \<Rightarrow> cell" and
  readOnly_set :: "bool \<Rightarrow> cell \<Rightarrow> cell" and
  onMetadataChanged :: "change \<Rightarrow> cell \<Rightarrow> cell" and
  Cell_onMetadataChanged :: "change \<Rightarrow> cell \<Rightarrow> cell" and
  CodeCell_onMetadataChanged :: "change \<Rightarrow> cell \<Rightarrow> cell"
where
  "saveEditableState c =
     (let cur = metadata (data c) k_editable in
      if (readOnly c \<and> cur = Some (JBool False)) \<or> (\<not> readOnly c \<and> cur = None) then c
      else if readOnly c then
        onMetadataChanged (MapField_change (metadata (data c)) [(k_editable, JBool False)])
          (transaction [UpdateMetadata [(k_editable, JBool False)]] c)
      else
        onMetadataChanged (MapField_change (metadata (data c)) [(k_editable, JNull)])
          (transaction [UpdateMetadata [(k_editable, JNull)]] c))"
| "loadEditableState c =
     readOnly_set (metadata (data c) k_editable = Some (JBool False)) c"
| "readOnly_set v c =
     (if v = readOnly c then c
      else update (if syncEditable c then saveEditableState (c\<lparr>readOnly := v\<rparr>)
                   else c\<lparr>readOnly := v\<rparr>))"
| "onMetadataChanged args c =
     (if ctype c = Code then CodeCell_onMetadataChanged args c
      else Cell_onMetadataChanged args c)"
| "Cell_onMetadataChanged args c =
     (let c1 = (if truthy (current args k_jupyter)
                then (if syncCollapse c then loadCollapseState c else c) else c)
      in if truthy (current args k_editable)
         then (if syncEditable c1 then loadEditableState c1 else c1) else c1)"
| "CodeCell_onMetadataChanged args c =
     (if savingMetadata c then c
      else
        let c1 = (if truthy (current args k_scrolled)
                  then (if syncScrolled c then loadScrolledState c else c) else c);
            c2 = (if truthy (current args k_collapsed)
                  then (if syncCollapse c1 then loadCollapseState c1 else c1) else c1)
        in Cell_onMetadataChanged args c2)"
  by pat_completeness auto

termination
  by (relation "measure (\<lambda>x. case x of
          Inl (Inl c) \<Rightarrow> 3
        | Inl (Inr (Inl c)) \<Rightarrow> 5
        | Inl (Inr (Inr (v, c))) \<Rightarrow> 4
        | Inr (Inl (args, c)) \<Rightarrow> (if truthy (current args k_editable) then 8 else 2)
        | Inr (Inr (Inl (args, c))) \<Rightarrow> (if truthy (current args k_editable) then 6 else 0)
        | Inr (Inr (Inr (args, c))) \<Rightarrow> (if truthy (current args k_editable) then 7 else 1))")
     (simp_all add: MapField_change_def)

declare saveEditableState.simps [simp del]
declare loadEditableState.simps [simp del]
declare readOnly_set.simps [simp del]
declare onMetadataChanged.simps [simp del]
declare Cell_onMetadataChanged.simps [simp del]
declare CodeCell_onMetadataChanged.simps [simp del]

text \<open>The setter of \<open>syncEditable\<close>.\<close>

definition syncEditable_set :: "bool \<Rightarrow> cell \<Rightarrow> cell" where
  "syncEditable_set v c =
     (if syncEditable c = v then c
      else if v then loadEditableState (c\<lparr>syncEditable := v\<rparr>)
      else c\<lparr>syncEditable := v\<rparr>)"

definition syncCollapse_set :: "bool \<Rightarrow> cell \<Rightarrow> cell" where
  "syncCollapse_set v c =
     (if syncCollapse c = v then c
      else if v then loadCollapseState (c\<lparr>syncCollapse := v\<rparr>)
      else c\<lparr>syncCollapse := v\<rparr>)"

subsection \<open>Hiding the input\<close>

definition Cell_handleInputHidden :: "bool \<Rightarrow> cell \<Rightarrow> cell" where
  "Cell_handleInputHidden v c = c"

definition CodeCell_handleInputHidden :: "bool \<Rightarrow> cell \<Rightarrow> cell" where
  "CodeCell_handleInputHidden v c =
     (if \<not> v \<and> outputWrapper_isHidden c then c\<lparr>outputWrapper_isHidden := False\<rparr>
      else if v \<and> \<not> outputWrapper_isHidden c \<and> outputHidden c
           then c\<lparr>outputWrapper_isHidden := True\<rparr>
      else c)"

definition handleInputHidden :: "bool \<Rightarrow> cell \<Rightarrow> cell" where
  "handleInputHidden v c =
     (if ctype c = Code then CodeCell_handleInputHidden v c else Cell_handleInputHidden v c)"

definition inputHidden_set :: "bool \<Rightarrow> cell \<Rightarrow> cell" where
  "inputHidden_set v c =
     (if inputHidden c = v then c
      else
        let c1 = (if v
                  then c\<lparr>inputWrapper :=
                          addWidget InputPlaceholderW (removeWidget InputAreaW (inputWrapper c))\<rparr>
                  else c\<lparr>inputWrapper :=
                          addWidget InputAreaW (removeWidget InputPlaceholderW (inputWrapper c))\<rparr>);
            c2 = c1\<lparr>inputHidden := v\<rparr>;
            c3 = (if syncCollapse c2 then saveCollapseState c2 else c2)
        in handleInputHidden v c3)"

subsection \<open>Code cells\<close>

definition outputHidden_set :: "bool \<Rightarrow> cell \<Rightarrow> cell" where
  "outputHidden_set v c =
     (if outputHidden c = v then c
      else
        let c1 = (if v
                  then
                    (let c' = c\<lparr>outputWrapper :=
                                 addWidget OutputPlaceholderW
                                   (removeWidget OutputAreaW (outputWrapper c))\<rparr>
                     in if inputHidden c' \<and> \<not> outputWrapper_isHidden c'
                        then c'\<lparr>outputWrapper_isHidden := True\<rparr> else c')
                  else
                    (let c' = (if outputWrapper_isHidden c
                               then c\<lparr>outputWrapper_isHidden := False\<rparr> else c)
                     in c'\<lparr>outputWrapper :=
                             addWidget OutputAreaW
                               (removeWidget OutputPlaceholderW (outputWrapper c'))\<rparr>));
            c2 = c1\<lparr>outputHidden := v\<rparr>
        in if syncCollapse c2 then saveCollapseState c2 else c2)"

definition outputsScrolled_set :: "bool \<Rightarrow> cell \<Rightarrow> cell" where
  "outputsScrolled_set v c =
     (let c1 = c\<lparr>outputsScrolled := Some v\<rparr>
      in if syncScrolled c1 then saveScrolledState c1 else c1)"

definition syncScrolled_set :: "bool \<Rightarrow> cell \<Rightarrow> cell" where
  "syncScrolled_set v c =
     (if syncScrolled c = v then c
      else if v then loadScrolledState (c\<lparr>syncScrolled := v\<rparr>)
      else c\<lparr>syncScrolled := v\<rparr>)"

text \<open>The listener of the \<open>executionCount\<close> field, registered by the \<open>CodeCell\<close> constructor.\<close>

definition onExecutionCountChanged :: "js_integer option \<Rightarrow> cell \<Rightarrow> cell" where
  "onExecutionCountChanged cur c =
     (case cur of None \<Rightarrow> c | Some n \<Rightarrow> setPrompt (number_to_string n) c)"

subsection \<open>Construction\<close>

text \<open>
  The constructors, given the record the cell is bound to. The input wrapper holds the
  collapser and the input area; a code cell's output wrapper holds the collapser and the
  output area. The fields of \<open>CodeCell\<close> take their initial values in every cell and are
  only touched by code-cell operations.
\<close>

definition Cell_new :: "cell_type \<Rightarrow> cell_data \<Rightarrow> cell" where
  "Cell_new t d =
     \<lparr> ctype = t, data = d, readOnly = False, inputHidden = False,
       inputWrapper = [InputCollapserW, InputAreaW],
       syncCollapse = False, syncEditable = False, prompt = [], update_pending = False,
       outputHidden = False, outputsScrolled = None,
       outputWrapper = [OutputCollapserW, OutputAreaW], outputWrapper_isHidden = False,
       syncScrolled = False, savingMetadata = False, outputArea_future = None,
       next_future = 0, isDisposed = False, trace = [] \<rparr>"

definition Cell_initializeState :: "cell \<Rightarrow> cell" where
  "Cell_initializeState c = loadEditableState (loadCollapseState c)"

definition CodeCell_initializeState :: "cell \<Rightarrow> cell" where
  "CodeCell_initializeState c =
     (let c1 = loadScrolledState (Cell_initializeState c)
      in setPrompt (case executionCount (data c1) of
                      None \<Rightarrow> []
                    | Some n \<Rightarrow> (if n = 0 then [] else number_to_string n)) c1)"

definition initializeState :: "cell \<Rightarrow> cell" where
  "initializeState c =
     (if ctype c = Code then CodeCell_initializeState c else Cell_initializeState c)"

text \<open>
  \<open>CodeCell.dispose\<close> with \<open>Cell.dispose\<close>: a second call does nothing; the first releases
  the listeners and sets the references to the record, the input and the output area to
  null. The other methods are modelled for a cell that has not been disposed.
\<close>

definition dispose :: "cell \<Rightarrow> cell" where
  "dispose c = (if isDisposed c then c else c\<lparr>isDisposed := True\<rparr>)"

subsection \<open>Executing a code cell\<close>

text \<open>A session without a kernel has \<open>kernel = None\<close>.\<close>

record kernel =
  kernel_id :: nat

record session =
  kernel :: "kernel option"

text \<open>
  What a failed execution is rejected with, and what \<open>execute\<close> throws: an error object,
  of which the code reads the message.
\<close>

datatype js_error = Error (message: jsstring)

record reply =
  execution_count :: "js_integer option"

datatype outcome = Resolved reply | Rejected js_error

text \<open>
  Modelled from the spec: \<open>OutputArea.execute\<close> is not among the sources. It submits the code
  and the metadata to the kernel of the session, which answers every request with a new
  future ("a token representing one in-progress execution request"), and exposes that
  future as the \<open>future\<close> of the output area; the promise it returns settles later.
\<close>

definition OutputArea_execute :: "jsstring \<Rightarrow> session \<Rightarrow> jsobject \<Rightarrow> cell \<Rightarrow> cell" where
  "OutputArea_execute code s meta c =
     c\<lparr> outputArea_future := Some (next_future c),
        next_future := Suc (next_future c),
        trace := trace c @ [KernelExecute code meta] \<rparr>"

text \<open>
  \<open>CodeCell.execute\<close> up to its \<open>await\<close>: either it has returned (\<open>undefined\<close>), or it
  waits for the reply with the future it captured.
\<close>

datatype submission = Returned cell | Awaiting cell "future option"

definition execute_clear :: "cell \<Rightarrow> cell" where
  "execute_clear c =
     onExecutionCountChanged None (transaction [SetExecutionCount None, ClearOutputs] c)"

definition execute_begin :: "cell \<Rightarrow> session \<Rightarrow> jsobject option \<Rightarrow> submission" where
  "execute_begin c s meta =
     (let code = source (data c) in
      if trim code = [] then Returned (execute_clear c)
      else case kernel s of
        None \<Rightarrow> Returned (execute_clear c)
      | Some k \<Rightarrow>
          let meta' = obj_assign k_cellId (JStr (record_id (data c)))
                        (case meta of None \<Rightarrow> [] | Some m \<Rightarrow> m);
              c1 = outputHidden_set False c;
              c2 = setPrompt (ascii ''*'') c1;
              c3 = onExecutionCountChanged None
                     (transaction [SetExecutionCount None, SetTrusted True] c2);
              c4 = OutputArea_execute code s meta' c3
          in Awaiting c4 (outputArea_future c4))"

text \<open>
  The error the engine raises for a property read on \<open>null\<close>. Its message differs between
  engines; it is not \<open>Canceled\<close>.
\<close>

definition TypeError_null :: js_error where
  "TypeError_null = Error (ascii ''Cannot read properties of null'')"

text \<open>
  The \<open>catch\<close> block of \<open>CodeCell.execute\<close>, for the caught error, the future captured at
  submission and the state the cell has by then. Only when the message is \<open>Canceled\<close> is
  \<open>cell.outputArea.future\<close> read, which fails on a disposed cell. The result is the error
  thrown to the caller.
\<close>

definition execute_catch :: "future option \<Rightarrow> js_error \<Rightarrow> cell \<Rightarrow> cell \<times> (js_error + reply)" where
  "execute_catch fut e c =
     (if message e = ascii ''Canceled'' then
        (if isDisposed c then (c, Inl TypeError_null)
         else (if outputArea_future c = fut then setPrompt [] c else c, Inl e))
      else (c, Inl e))"

text \<open>
  The rest of \<open>CodeCell.execute\<close>, run when the promise settles, on the state the cell has
  by then. On a reply the execution count is written, which fails on a disposed cell
  (\<open>cell.data\<close> is null) inside the \<open>try\<close>. The result is the returned reply or the error
  thrown to the caller.
\<close>

fun execute_settle :: "future option \<Rightarrow> outcome \<Rightarrow> cell \<Rightarrow> cell \<times> (js_error + reply)" where
  "execute_settle fut (Resolved msg) c =
     (if isDisposed c then execute_catch fut TypeError_null c
      else (onExecutionCountChanged (execution_count msg)
              (transaction [SetExecutionCount (execution_count msg)] c),
            Inr msg))"
| "execute_settle fut (Rejected e) c = execute_catch fut e c"

text \<open>
  A whole call. \<open>during\<close> is what happens to the cell while the call waits (streamed
  outputs, other calls); \<open>out\<close> is how the promise settles. The result \<open>Inr None\<close> is the
  return of \<open>undefined\<close>.
\<close>

definition execute ::
  "cell \<Rightarrow> session \<Rightarrow> jsobject option \<Rightarrow> (cell \<Rightarrow> cell) \<Rightarrow> outcome
     \<Rightarrow> cell \<times> (js_error + reply option)" where
  "execute c s meta during out =
     (case execute_begin c s meta of
        Returned c' \<Rightarrow> (c', Inr None)
      | Awaiting c' fut \<Rightarrow>
          (case execute_settle fut out (during c') of
             (c'', Inl e) \<Rightarrow> (c'', Inl e)
           | (c'', Inr msg) \<Rightarrow> (c'', Inr (Some msg))))"

subsection \<open>Markdown cells\<close>

definition DEFAULT_MARKDOWN_TEXT :: jsstring where
  "DEFAULT_MARKDOWN_TEXT = ascii ''Type Markdown and LaTeX: $ '' @ [0x03B1] @ ascii ''^2 $''"

datatype mime_model = MimeModel (mime_data: "(jsstring \<times> jsstring) list")

datatype render_promise = Promise_renderModel mime_model | Promise_resolved

text \<open>
  The state a markdown cell adds to a cell. The renderer is \<open>None\<close> until it is created;
  from then on it holds the models handed to \<open>renderModel\<close>, oldest first.
  \<open>renderers_created\<close> counts the calls of \<open>createRenderer\<close>.
\<close>

record markdown_cell =
  base :: cell
  rendered :: bool
  prevText :: jsstring
  renderer :: "mime_model list option"
  renderers_created :: nat
  inputArea_rendered :: bool

text \<open>\<open>this.editor.model.value || DEFAULT_MARKDOWN_TEXT\<close>: the empty string is falsy.\<close>

definition text_to_render :: "markdown_cell \<Rightarrow> jsstring" where
  "text_to_render m =
     (if source (data (base m)) \<noteq> [] then source (data (base m)) else DEFAULT_MARKDOWN_TEXT)"

definition updateRenderedInput :: "markdown_cell \<Rightarrow> markdown_cell \<times> render_promise" where
  "updateRenderedInput m =
     (let text = text_to_render m
      in if text \<noteq> prevText m then
           let mimeModel = MimeModel [(ascii ''text/markdown'', text)];
               m1 = (case renderer m of
                       None \<Rightarrow> m\<lparr>renderer := Some [],
                                  renderers_created := renderers_created m + 1\<rparr>
                     | Some ms \<Rightarrow> m);
               m2 = m1\<lparr>prevText := text\<rparr>
           in (m2\<lparr>renderer := map_option (\<lambda>ms. ms @ [mimeModel]) (renderer m2)\<rparr>,
               Promise_renderModel mimeModel)
         else (m, Promise_resolved))"

definition renderInput :: "markdown_cell \<Rightarrow> markdown_cell" where
  "renderInput m = m\<lparr>inputArea_rendered := True\<rparr>"

definition showEditor :: "markdown_cell \<Rightarrow> markdown_cell" where
  "showEditor m = m\<lparr>inputArea_rendered := False\<rparr>"

definition handleRendered :: "markdown_cell \<Rightarrow> markdown_cell" where
  "handleRendered m =
     (if \<not> rendered m then showEditor m else renderInput (fst (updateRenderedInput m)))"

definition rendered_set :: "bool \<Rightarrow> markdown_cell \<Rightarrow> markdown_cell" where
  "rendered_set v m = (if v = rendered m then m else handleRendered (m\<lparr>rendered := v\<rparr>))"

definition MarkdownCell_new :: "cell_data \<Rightarrow> markdown_cell" where
  "MarkdownCell_new d =
     renderInput (fst (updateRenderedInput
       \<lparr> base = Cell_new Markdown d, rendered = True, prevText = [], renderer = None,
         renderers_created = 0, inputArea_rendered = False \<rparr>))"

text \<open>The text the preview shows: the text of the model rendered last, if any.\<close>

definition preview :: "markdown_cell \<Rightarrow> jsstring option" where
  "preview m =
     (case renderer m of
        None \<Rightarrow> None
      | Some ms \<Rightarrow> (if ms = [] then None else map_of (mime_data (last ms)) (ascii ''text/markdown'')))"

subsection \<open>Reading the trace\<close>

text \<open>The events a run from \<open>c\<close> to \<open>c'\<close> has added, and the number of transactions begun.\<close>

definition new_events :: "cell \<Rightarrow> cell \<Rightarrow> event list" where
  "new_events c c' = drop (length (trace c)) (trace c')"

definition transactions :: "event list \<Rightarrow> nat" where
  "transactions evs = length (filter (\<lambda>e. e = TxBegin) evs)"

text \<open>A record with no metadata, used in the examples.\<close>

definition example_data :: cell_data where
  "example_data =
     \<lparr> source = ascii ''1 + 1'', metadata = Map.empty, executionCount = None, trusted = False,
       outputs = [], record_id = ascii ''data'' \<rparr>"

text \<open>The events of a trace that lie inside a transaction, between its begin and its end.\<close>

fun events_inside :: "bool \<Rightarrow> event list \<Rightarrow> event list" where
  "events_inside opn [] = []"
| "events_inside opn (TxBegin # es) = events_inside True es"
| "events_inside opn (TxEnd # es) = events_inside False es"
| "events_inside opn (e # es) = (if opn then e # events_inside opn es else events_inside opn es)"

definition inside_transaction :: "event list \<Rightarrow> event list" where
  "inside_transaction evs = events_inside False evs"

text \<open>The cell as a submission leaves it.\<close>

fun cell_of :: "submission \<Rightarrow> cell" where
  "cell_of (Returned c) = c"
| "cell_of (Awaiting c fut) = c"

text \<open>Further values used in the examples.\<close>

definition example_session :: session where
  "example_session = \<lparr> kernel = Some \<lparr> kernel_id = 7 \<rparr> \<rparr>"

definition Canceled :: js_error where
  "Canceled = Error (ascii ''Canceled'')"

definition scrolled_auto_data :: cell_data where
  "scrolled_auto_data = example_data\<lparr>metadata := [k_scrolled \<mapsto> JStr (ascii ''auto'')]\<rparr>"

definition blank_data :: cell_data where
  "blank_data = example_data\<lparr>source := [0x20, 0x0A, 0x09]\<rparr>"

definition readonly_data :: cell_data where
  "readonly_data = example_data\<lparr>metadata := [k_editable \<mapsto> JBool False]\<rparr>"

definition empty_data :: cell_data where
  "empty_data = example_data\<lparr>source := []\<rparr>"

subsection \<open>Reachable states\<close>

text \<open>
  The widget arrangement of a cell: whether the input is hidden and what the input
  wrapper holds, and the same for the output, with the visibility of the output wrapper.
\<close>

definition arrangement :: "cell \<Rightarrow> bool \<times> widget list \<times> bool \<times> widget list \<times> bool" where
  "arrangement c =
     (inputHidden c, inputWrapper c, outputHidden c, outputWrapper c, outputWrapper_isHidden c)"

text \<open>
  A write to the record committed by someone else (another view of the same record): the
  field changes and the store notifies the listeners of this cell.
\<close>

fun external_write :: "field_write \<Rightarrow> cell \<Rightarrow> cell" where
  "external_write (UpdateMetadata upd) c =
     onMetadataChanged (MapField_change (metadata (data c)) upd)
       (c\<lparr>data := apply_write (UpdateMetadata upd) (data c)\<rparr>)"
| "external_write (SetExecutionCount n) c =
     (if ctype c = Code
      then onExecutionCountChanged n (c\<lparr>data := apply_write (SetExecutionCount n) (data c)\<rparr>)
      else c\<lparr>data := apply_write (SetExecutionCount n) (data c)\<rparr>)"
| "external_write w c = c\<lparr>data := apply_write w (data c)\<rparr>"

text \<open>
  What can happen to a cell after its construction: calls of its public methods and
  setters, the two halves of \<open>CodeCell.execute\<close>, edits of the source text, and writes by
  others. The members of \<open>CodeCell\<close> exist on code cells only.
\<close>

datatype cell_op =
    InitializeState
  | SetReadOnly bool
  | SetSyncEditable bool
  | SetSyncCollapse bool
  | SetInputHidden bool
  | SaveEditableState
  | LoadEditableState
  | SetOutputHidden bool
  | SetOutputsScrolled bool
  | SetSyncScrolled bool
  | ExecuteBegin session "jsobject option"
  | ExecuteSettle "future option" outcome
  | EditSource jsstring
  | ExternalWrite field_write

fun cell_step :: "cell_op \<Rightarrow> cell \<Rightarrow> cell" where
  "cell_step InitializeState c = initializeState c"
| "cell_step (SetReadOnly v) c = readOnly_set v c"
| "cell_step (SetSyncEditable v) c = syncEditable_set v c"
| "cell_step (SetSyncCollapse v) c = syncCollapse_set v c"
| "cell_step (SetInputHidden v) c = inputHidden_set v c"
| "cell_step SaveEditableState c = saveEditableState c"
| "cell_step LoadEditableState c = loadEditableState c"
| "cell_step (SetOutputHidden v) c = (if ctype c = Code then outputHidden_set v c else c)"
| "cell_step (SetOutputsScrolled v) c = (if ctype c = Code then outputsScrolled_set v c else c)"
| "cell_step (SetSyncScrolled v) c = (if ctype c = Code then syncScrolled_set v c else c)"
| "cell_step (ExecuteBegin s meta) c =
     (if ctype c = Code then cell_of (execute_begin c s meta) else c)"
| "cell_step (ExecuteSettle fut out) c =
     (if ctype c = Code then fst (execute_settle fut out c) else c)"
| "cell_step (EditSource s) c = c\<lparr>data := (data c)\<lparr>source := s\<rparr>\<rparr>"
| "cell_step (ExternalWrite w) c = external_write w c"

definition cell_run :: "cell_op list \<Rightarrow> cell \<Rightarrow> cell" where
  "cell_run ops c = fold cell_step ops c"

text \<open>
  The arrangements the constructors and setters produce: each wrapper holds its collapser
  followed by the area or, when hidden, the placeholder; the output wrapper is hidden
  exactly when input and output are both hidden; only code cells hide output.
\<close>

definition arrangement_wf ::
  "cell_type \<Rightarrow> bool \<times> widget list \<times> bool \<times> widget list \<times> bool \<Rightarrow> bool" where
  "arrangement_wf t a \<longleftrightarrow>
     (case a of (ih, iw, oh, ow, owh) \<Rightarrow>
        iw = [InputCollapserW, if ih then InputPlaceholderW else InputAreaW]
        \<and> ow = [OutputCollapserW, if oh then OutputPlaceholderW else OutputAreaW]
        \<and> (owh \<longleftrightarrow> ih \<and> oh)
        \<and> (oh \<longrightarrow> t = Code))"

definition arrangement_ok :: "cell \<Rightarrow> bool" where
  "arrangement_ok c \<longleftrightarrow> arrangement_wf (ctype c) (arrangement c)"

text \<open>
  What can happen to a markdown cell: an edit of its text, a change of \<open>rendered\<close>, and an
  update request (also the one the debouncer posts after an edit), which runs
  \<open>_handleRendered\<close>.
\<close>

datatype markdown_op = EditText jsstring | SetRendered bool | UpdateRequest

fun markdown_step :: "markdown_op \<Rightarrow> markdown_cell \<Rightarrow> markdown_cell" where
  "markdown_step (EditText s) m =
     m\<lparr>base := (base m)\<lparr>data := (data (base m))\<lparr>source := s\<rparr>\<rparr>\<rparr>"
| "markdown_step (SetRendered v) m = rendered_set v m"
| "markdown_step UpdateRequest m = handleRendered m"

definition markdown_run :: "markdown_op list \<Rightarrow> markdown_cell \<Rightarrow> markdown_cell" where
  "markdown_run ops m = fold markdown_step ops m"

text \<open>
  The preview shows the text rendered last, that text is not empty, and one renderer has
  been created.
\<close>

definition preview_ok :: "markdown_cell \<Rightarrow> bool" where
  "preview_ok m \<longleftrightarrow>
     prevText m \<noteq> [] \<and> preview m = Some (prevText m) \<and> renderers_created m = 1"

section \<open>Editable state: what the mutually recursive methods compute\<close>

lemma onMetadataChanged_eq:
  "onMetadataChanged args c =
     (if (ctype c = Code \<and> savingMetadata c) \<or> \<not> truthy (current args k_editable)
         \<or> \<not> syncEditable c
      then c else loadEditableState c)"
  by (simp add: onMetadataChanged.simps CodeCell_onMetadataChanged.simps
      Cell_onMetadataChanged.simps loadCollapseState_def Cell_loadCollapseState_def
      CodeCell_loadCollapseState_def loadScrolledState_def Let_def)

text \<open>
  The notification that follows a save carries \<open>false\<close> or \<open>null\<close> for \<open>editable\<close>, so the
  cell's own listener does not react to it.
\<close>

lemma saveEditableState_eq:
  "saveEditableState c =
     (if (readOnly c \<and> metadata (data c) k_editable = Some (JBool False)) \<or>
         (\<not> readOnly c \<and> metadata (data c) k_editable = None)
      then c
      else transaction
             [UpdateMetadata [(k_editable, if readOnly c then JBool False else JNull)]] c)"
  by (simp add: saveEditableState.simps onMetadataChanged_eq MapField_change_def Let_def)

lemma metadata_transaction_editable:
  "metadata (data (transaction [UpdateMetadata [(k_editable, v)]] c)) k_editable =
     (if v = JNull then None else Some v)"
  by (simp add: transaction_def)

lemma loadEditableState_eq:
  "loadEditableState c =
     (let v = (metadata (data c) k_editable = Some (JBool False)) in
      if v = readOnly c then c
      else update (if syncEditable c then saveEditableState (c\<lparr>readOnly := v\<rparr>)
                   else c\<lparr>readOnly := v\<rparr>))"
  by (simp add: loadEditableState.simps readOnly_set.simps Let_def)

lemma readOnly_saveEditableState [simp]: "readOnly (saveEditableState c) = readOnly c"
  by (simp add: saveEditableState_eq transaction_def)

lemma readOnly_update [simp]: "readOnly (update c) = readOnly c"
  by (simp add: update_def)

lemma data_update [simp]: "data (update c) = data c"
  by (simp add: update_def)

lemma metadata_saveEditableState:
  "metadata (data (saveEditableState c)) k_editable =
     (if readOnly c then Some (JBool False) else None)"
  by (simp add: saveEditableState_eq metadata_transaction_editable)

lemma new_events_saveEditableState:
  "new_events c (saveEditableState c) =
     (if (readOnly c \<and> metadata (data c) k_editable = Some (JBool False)) \<or>
         (\<not> readOnly c \<and> metadata (data c) k_editable = None)
      then []
      else [TxBegin,
            Write (UpdateMetadata [(k_editable, if readOnly c then JBool False else JNull)]),
            TxEnd])"
  by (simp add: saveEditableState_eq new_events_def transaction_def)

lemma readOnly_loadEditableState:
  "readOnly (loadEditableState c) \<longleftrightarrow> metadata (data c) k_editable = Some (JBool False)"
  by (auto simp add: loadEditableState_eq Let_def)

lemma readOnly_loadEditableState_post:
  "readOnly (loadEditableState c) \<longleftrightarrow>
     metadata (data (loadEditableState c)) k_editable = Some (JBool False)"
  by (auto simp add: loadEditableState_eq Let_def metadata_saveEditableState)

section \<open>Editable state: encoding and no-op guard\<close>

text \<open>
  C4. Saving the editable state leaves the metadata key \<open>editable\<close> in the tri-state
  encoding: \<open>false\<close> when the cell is read-only, absent when it is editable. The only
  values a save writes are \<open>false\<close> and \<open>null\<close> (which removes the key), never \<open>true\<close>. With
  \<open>syncEditable\<close> enabled, a change of \<open>readOnly\<close> through its setter is persisted in this
  encoding. After \<open>loadEditableState\<close>, \<open>readOnly\<close> is true exactly when the metadata value
  of \<open>editable\<close> is \<open>false\<close>, for the metadata before and after the load.
\<close>

theorem editable_tristate_encoding:
  "metadata (data (saveEditableState c)) k_editable =
      (if readOnly c then Some (JBool False) else None)
   \<and> new_events c (saveEditableState c) =
      (if (readOnly c \<and> metadata (data c) k_editable = Some (JBool False)) \<or>
          (\<not> readOnly c \<and> metadata (data c) k_editable = None)
       then []
       else [TxBegin,
             Write (UpdateMetadata [(k_editable, if readOnly c then JBool False else JNull)]),
             TxEnd])
   \<and> Write (UpdateMetadata [(k_editable, JBool True)]) \<notin> set (new_events c (saveEditableState c))
   \<and> (syncEditable c \<and> v \<noteq> readOnly c \<longrightarrow>
        metadata (data (readOnly_set v c)) k_editable =
          (if v then Some (JBool False) else None))
   \<and> (readOnly (loadEditableState c) \<longleftrightarrow>
        metadata (data c) k_editable = Some (JBool False))
   \<and> (readOnly (loadEditableState c) \<longleftrightarrow>
        metadata (data (loadEditableState c)) k_editable = Some (JBool False))"
proof -
  have saved: "metadata (data (saveEditableState c)) k_editable =
      (if readOnly c then Some (JBool False) else None)"
    by (rule metadata_saveEditableState)
  have events: "new_events c (saveEditableState c) =
      (if (readOnly c \<and> metadata (data c) k_editable = Some (JBool False)) \<or>
          (\<not> readOnly c \<and> metadata (data c) k_editable = None)
       then []
       else [TxBegin,
             Write (UpdateMetadata [(k_editable, if readOnly c then JBool False else JNull)]),
             TxEnd])"
    by (rule new_events_saveEditableState)
  have never_true:
    "Write (UpdateMetadata [(k_editable, JBool True)]) \<notin> set (new_events c (saveEditableState c))"
    by (simp add: new_events_saveEditableState)
  have setter: "syncEditable c \<and> v \<noteq> readOnly c \<longrightarrow>
      metadata (data (readOnly_set v c)) k_editable = (if v then Some (JBool False) else None)"
    by (simp add: readOnly_set.simps metadata_saveEditableState)
  have loaded: "readOnly (loadEditableState c) \<longleftrightarrow>
      metadata (data c) k_editable = Some (JBool False)"
    by (rule readOnly_loadEditableState)
  have loaded_post: "readOnly (loadEditableState c) \<longleftrightarrow>
      metadata (data (loadEditableState c)) k_editable = Some (JBool False)"
    by (rule readOnly_loadEditableState_post)
  show ?thesis
    by (intro conjI saved events never_true setter loaded loaded_post)
qed

theorem editable_tristate_encoding_witness:
  "syncEditable (syncEditable_set True (Cell_new Raw example_data))
   \<and> True \<noteq> readOnly (syncEditable_set True (Cell_new Raw example_data))
   \<and> metadata (data (readOnly_set True (syncEditable_set True (Cell_new Raw example_data))))
       k_editable = Some (JBool False)"
proof -
  have h: "syncEditable (syncEditable_set True (Cell_new Raw example_data))
           \<and> True \<noteq> readOnly (syncEditable_set True (Cell_new Raw example_data))"
    by (simp add: syncEditable_set_def loadEditableState_eq Cell_new_def example_data_def)
  from editable_tristate_encoding [of "syncEditable_set True (Cell_new Raw example_data)" True] h
  show ?thesis
    by simp
qed

text \<open>
  C5. When the view already matches the model (read-only with \<open>editable\<close> equal to \<open>false\<close>,
  or editable with the key absent), \<open>saveEditableState\<close> changes nothing: the cell, its
  record and its trace are as before, so no transaction is made and the metadata is
  unchanged.
\<close>

theorem saveEditableState_matching_noop:
  assumes "(readOnly c \<and> metadata (data c) k_editable = Some (JBool False)) \<or>
           (\<not> readOnly c \<and> metadata (data c) k_editable = None)"
  shows "saveEditableState c = c
         \<and> new_events c (saveEditableState c) = []
         \<and> transactions (trace (saveEditableState c)) = transactions (trace c)
         \<and> metadata (data (saveEditableState c)) = metadata (data c)"
  using assms by (simp add: saveEditableState_eq new_events_def)

theorem saveEditableState_matching_noop_witness:
  "\<not> readOnly (Cell_new Raw example_data)
   \<and> metadata (data (Cell_new Raw example_data)) k_editable = None
   \<and> saveEditableState (Cell_new Raw example_data) = Cell_new Raw example_data
   \<and> transactions (trace (saveEditableState (Cell_new Raw example_data))) = 0"
  using saveEditableState_matching_noop [of "Cell_new Raw example_data"]
  by (simp add: Cell_new_def example_data_def transactions_def)

section \<open>Hiding input and output\<close>

lemma saveCollapseState_id [simp]: "saveCollapseState c = c"
  by (simp add: saveCollapseState_def Cell_saveCollapseState_def CodeCell_saveCollapseState_def)

lemma loadCollapseState_id [simp]: "loadCollapseState c = c"
  by (simp add: loadCollapseState_def Cell_loadCollapseState_def CodeCell_loadCollapseState_def)

lemma CodeCell_handleInputHidden_eq:
  "CodeCell_handleInputHidden v c =
     c\<lparr>outputWrapper_isHidden := v \<and> (outputWrapper_isHidden c \<or> outputHidden c)\<rparr>"
  by (cases v; cases "outputWrapper_isHidden c"; cases "outputHidden c")
     (simp_all add: CodeCell_handleInputHidden_def)

text \<open>
  C9. The override of \<open>handleInputHidden\<close> in \<open>CodeCell\<close> touches the visibility of the
  output wrapper only: after it, the wrapper is hidden exactly when the input is being
  hidden and the wrapper was hidden already or the outputs are hidden. So showing the
  input always leaves the wrapper visible, and hiding the input hides the wrapper only
  when the outputs are hidden too. Through the setter of \<open>inputHidden\<close> on a code cell:
  showing the input reveals the wrapper, and collapsing the input of a cell with visible
  output keeps the wrapper visible.
\<close>

theorem handleInputHidden_cascade:
  "CodeCell_handleInputHidden v c =
      c\<lparr>outputWrapper_isHidden := v \<and> (outputWrapper_isHidden c \<or> outputHidden c)\<rparr>
   \<and> \<not> outputWrapper_isHidden (CodeCell_handleInputHidden False c)
   \<and> (outputWrapper_isHidden (CodeCell_handleInputHidden True c) \<longleftrightarrow>
        outputWrapper_isHidden c \<or> outputHidden c)
   \<and> (ctype c = Code \<and> inputHidden c \<longrightarrow>
        \<not> outputWrapper_isHidden (inputHidden_set False c))
   \<and> (ctype c = Code \<and> \<not> inputHidden c \<and> \<not> outputHidden c \<and> \<not> outputWrapper_isHidden c \<longrightarrow>
        \<not> outputWrapper_isHidden (inputHidden_set True c))
   \<and> (ctype c = Code \<and> \<not> inputHidden c \<and> outputHidden c \<longrightarrow>
        outputWrapper_isHidden (inputHidden_set True c))"
  by (simp add: CodeCell_handleInputHidden_eq inputHidden_set_def handleInputHidden_def Let_def)

theorem handleInputHidden_cascade_witness:
  "ctype (outputHidden_set True (inputHidden_set True (Cell_new Code example_data))) = Code
   \<and> inputHidden (outputHidden_set True (inputHidden_set True (Cell_new Code example_data)))
   \<and> outputWrapper_isHidden
        (outputHidden_set True (inputHidden_set True (Cell_new Code example_data)))
   \<and> \<not> outputWrapper_isHidden
        (inputHidden_set False
          (outputHidden_set True (inputHidden_set True (Cell_new Code example_data))))
   \<and> \<not> outputWrapper_isHidden (inputHidden_set True (Cell_new Code example_data))"
  using handleInputHidden_cascade
    [of True "outputHidden_set True (inputHidden_set True (Cell_new Code example_data))"]
    handleInputHidden_cascade [of True "Cell_new Code example_data"]
  by (simp add: Cell_new_def outputHidden_set_def inputHidden_set_def handleInputHidden_def
      CodeCell_handleInputHidden_def Let_def)

section \<open>Scrolled state\<close>

text \<open>
  C10, as the code has it. The bodies of \<open>saveScrolledState\<close> and \<open>loadScrolledState\<close> are
  disabled, so \<open>outputsScrolled\<close> is a view flag only: its setter stores the flag and
  writes nothing to the record, also with \<open>syncScrolled\<close> enabled; loading changes nothing,
  and the setter of \<open>syncScrolled\<close> changes the flag \<open>syncScrolled\<close> alone.
\<close>

theorem scrolled_state_not_synced:
  "outputsScrolled_set v c = c\<lparr>outputsScrolled := Some v\<rparr>
   \<and> saveScrolledState c = c
   \<and> loadScrolledState c = c
   \<and> syncScrolled_set v c = c\<lparr>syncScrolled := v\<rparr>
   \<and> data (outputsScrolled_set v c) = data c
   \<and> trace (outputsScrolled_set v c) = trace c"
  by (simp add: outputsScrolled_set_def saveScrolledState_def loadScrolledState_def
      syncScrolled_set_def Let_def)

text \<open>
  C10 as stated fails. After \<open>syncScrolled\<close> has been enabled, setting \<open>outputsScrolled\<close>
  to true leaves the metadata key \<open>scrolled\<close> absent. And on a record whose \<open>scrolled\<close> is
  \<open>"auto"\<close>, a cell whose \<open>outputsScrolled\<close> is true keeps it true when \<open>syncScrolled\<close> is
  enabled and the scrolled state is loaded.
\<close>

theorem scrolled_counterexample:
  "syncScrolled (syncScrolled_set True (Cell_new Code example_data))
   \<and> metadata (data (outputsScrolled_set True
                       (syncScrolled_set True (Cell_new Code example_data))))
        k_scrolled = None
   \<and> metadata (data (Cell_new Code scrolled_auto_data)) k_scrolled = Some (JStr (ascii ''auto''))
   \<and> outputsScrolled (loadScrolledState
        (syncScrolled_set True
          (outputsScrolled_set True (Cell_new Code scrolled_auto_data))))
        = Some True"
  by (simp add: outputsScrolled_set_def saveScrolledState_def loadScrolledState_def
      syncScrolled_set_def Let_def Cell_new_def example_data_def scrolled_auto_data_def)

section \<open>Metadata notifications\<close>

lemma loadEditableState_view:
  "inputHidden (loadEditableState c) = inputHidden c
   \<and> outputHidden (loadEditableState c) = outputHidden c
   \<and> outputsScrolled (loadEditableState c) = outputsScrolled c"
  by (simp add: loadEditableState_eq saveEditableState_eq transaction_def update_def Let_def)

text \<open>
  C6, as the code has it. A metadata notification either leaves the cell as it is or
  re-loads its editable state from the model, after which \<open>readOnly\<close> is true exactly when
  the metadata value of \<open>editable\<close> is \<open>false\<close>; it re-loads only when \<open>syncEditable\<close> is
  active. The re-load hooks for the collapse and scrolled state are disabled, so no
  notification changes \<open>inputHidden\<close>, \<open>outputHidden\<close> or \<open>outputsScrolled\<close>. The listener is
  not the only way an edit of the record reaches the view: enabling \<open>syncEditable\<close> loads
  the editable state as well.
\<close>

theorem onMetadataChanged_reload:
  "(onMetadataChanged args c = c \<or> onMetadataChanged args c = loadEditableState c)
   \<and> (\<not> syncEditable c \<longrightarrow> onMetadataChanged args c = c)
   \<and> (onMetadataChanged args c \<noteq> c \<longrightarrow>
        syncEditable c
        \<and> (readOnly (onMetadataChanged args c) \<longleftrightarrow>
             metadata (data c) k_editable = Some (JBool False)))
   \<and> inputHidden (onMetadataChanged args c) = inputHidden c
   \<and> outputHidden (onMetadataChanged args c) = outputHidden c
   \<and> outputsScrolled (onMetadataChanged args c) = outputsScrolled c
   \<and> (\<not> syncEditable c \<longrightarrow>
        syncEditable_set True c = loadEditableState (c\<lparr>syncEditable := True\<rparr>)
        \<and> (readOnly (syncEditable_set True c) \<longleftrightarrow>
             metadata (data c) k_editable = Some (JBool False)))"
proof -
  have either: "onMetadataChanged args c = c \<or> onMetadataChanged args c = loadEditableState c"
    by (simp add: onMetadataChanged_eq)
  have inactive: "\<not> syncEditable c \<longrightarrow> onMetadataChanged args c = c"
    by (simp add: onMetadataChanged_eq)
  have changed: "onMetadataChanged args c \<noteq> c \<longrightarrow>
        syncEditable c
        \<and> (readOnly (onMetadataChanged args c) \<longleftrightarrow>
             metadata (data c) k_editable = Some (JBool False))"
    by (simp add: onMetadataChanged_eq readOnly_loadEditableState)
  have view: "inputHidden (onMetadataChanged args c) = inputHidden c"
    "outputHidden (onMetadataChanged args c) = outputHidden c"
    "outputsScrolled (onMetadataChanged args c) = outputsScrolled c"
    by (simp_all add: onMetadataChanged_eq loadEditableState_view)
  have enabling: "\<not> syncEditable c \<longrightarrow>
        syncEditable_set True c = loadEditableState (c\<lparr>syncEditable := True\<rparr>)
        \<and> (readOnly (syncEditable_set True c) \<longleftrightarrow>
             metadata (data c) k_editable = Some (JBool False))"
    by (simp add: syncEditable_set_def readOnly_loadEditableState)
  show ?thesis
    by (intro conjI either inactive changed view enabling)
qed

theorem onMetadataChanged_reload_witness:
  "readOnly (syncEditable_set True (Cell_new Raw readonly_data))
   \<and> syncEditable (syncEditable_set True (Cell_new Raw readonly_data))
   \<and> \<not> readOnly (external_write (UpdateMetadata [(k_editable, JBool True)])
          (syncEditable_set True (Cell_new Raw readonly_data)))
   \<and> \<not> syncEditable (Cell_new Raw readonly_data)"
proof -
  let ?fresh = "Cell_new Raw readonly_data"
  let ?before = "syncEditable_set True ?fresh"
  let ?upd = "[(k_editable, JBool True)]"
  let ?args = "MapField_change (metadata (data ?before)) ?upd"
  let ?after = "?before\<lparr>data := apply_write (UpdateMetadata ?upd) (data ?before)\<rparr>"
  have off: "\<not> syncEditable ?fresh"
    by (simp add: Cell_new_def)
  have model: "metadata (data ?fresh) k_editable = Some (JBool False)"
    by (simp add: Cell_new_def readonly_data_def)
  from onMetadataChanged_reload [of ?args ?fresh] off model
  have loaded: "readOnly ?before"
    by blast
  have start: "?before = ?fresh\<lparr>syncEditable := True, readOnly := True, update_pending := True\<rparr>"
    by (simp add: syncEditable_set_def loadEditableState_eq saveEditableState_eq update_def
        Cell_new_def readonly_data_def)
  have sync: "syncEditable ?before"
    unfolding start by simp
  have m: "metadata (data ?after) k_editable \<noteq> Some (JBool False)"
    unfolding start by (simp add: Cell_new_def)
  have "readOnly ?after"
    unfolding start by simp
  moreover have "truthy (current ?args k_editable)"
    by (simp add: MapField_change_def)
  moreover have "ctype ?after \<noteq> Code"
    unfolding start by (simp add: Cell_new_def)
  moreover have "syncEditable ?after"
    unfolding start by simp
  ultimately have "readOnly ?after \<and> \<not> readOnly (onMetadataChanged ?args ?after)"
    using m by (simp only: onMetadataChanged_eq readOnly_loadEditableState simp_thms if_False)
  then have differs: "onMetadataChanged ?args ?after \<noteq> ?after"
    by metis
  from onMetadataChanged_reload [of ?args ?after] differs m
  have "\<not> readOnly (onMetadataChanged ?args ?after)"
    by blast
  moreover have "external_write (UpdateMetadata ?upd) ?before = onMetadataChanged ?args ?after"
    by (simp only: external_write.simps)
  ultimately have "\<not> readOnly (external_write (UpdateMetadata ?upd) ?before)"
    by (simp only: simp_thms)
  with loaded sync off show ?thesis
    by blast
qed

text \<open>
  C6 as stated fails, in three ways. A code cell has \<open>syncCollapse\<close> enabled and another
  view writes \<open>collapsed: true\<close>: the cell keeps its output shown, the hook being disabled.
  A cell has \<open>syncEditable\<close> enabled and another view writes \<open>editable: false\<close>: the cell is
  notified of the new value \<open>false\<close> and stays editable, because the listener tests the new
  value for truthiness. And the listener is not the only path: a cell without
  \<open>syncEditable\<close> ignores the notification of \<open>editable: false\<close>, and enabling \<open>syncEditable\<close>
  afterwards makes it read-only.
\<close>

theorem onMetadataChanged_counterexample:
  "syncCollapse (external_write (UpdateMetadata [(k_collapsed, JBool True)])
        (syncCollapse_set True (Cell_new Code example_data)))
   \<and> metadata (data (external_write (UpdateMetadata [(k_collapsed, JBool True)])
        (syncCollapse_set True (Cell_new Code example_data)))) k_collapsed = Some (JBool True)
   \<and> \<not> outputHidden (external_write (UpdateMetadata [(k_collapsed, JBool True)])
        (syncCollapse_set True (Cell_new Code example_data)))
   \<and> syncEditable (external_write (UpdateMetadata [(k_editable, JBool False)])
        (syncEditable_set True (Cell_new Raw example_data)))
   \<and> metadata (data (external_write (UpdateMetadata [(k_editable, JBool False)])
        (syncEditable_set True (Cell_new Raw example_data)))) k_editable = Some (JBool False)
   \<and> \<not> readOnly (external_write (UpdateMetadata [(k_editable, JBool False)])
        (syncEditable_set True (Cell_new Raw example_data)))
   \<and> \<not> readOnly (external_write (UpdateMetadata [(k_editable, JBool False)])
        (Cell_new Raw example_data))
   \<and> readOnly (syncEditable_set True
        (external_write (UpdateMetadata [(k_editable, JBool False)])
          (Cell_new Raw example_data)))"
  by (simp add: onMetadataChanged_eq MapField_change_def syncEditable_set_def
      syncCollapse_set_def loadEditableState_eq saveEditableState_eq update_def Cell_new_def
      example_data_def)

section \<open>Executing a code cell\<close>

lemma onExecutionCountChanged_None [simp]: "onExecutionCountChanged None c = c"
  by (simp add: onExecutionCountChanged_def)

lemma outputHidden_set_frame:
  "trace (outputHidden_set v c) = trace c \<and> data (outputHidden_set v c) = data c
   \<and> prompt (outputHidden_set v c) = prompt c
   \<and> outputArea_future (outputHidden_set v c) = outputArea_future c
   \<and> next_future (outputHidden_set v c) = next_future c
   \<and> isDisposed (outputHidden_set v c) = isDisposed c
   \<and> outputHidden (outputHidden_set v c) = v"
  by (simp add: outputHidden_set_def Let_def)

lemma execute_clear_eq:
  "execute_clear c =
     c\<lparr> data := (data c)\<lparr>executionCount := None, outputs := []\<rparr>,
        trace := trace c @ [TxBegin, Write (SetExecutionCount None), Write ClearOutputs, TxEnd] \<rparr>"
  by (simp add: execute_clear_def transaction_def)

lemma execute_begin_submits:
  assumes "trim (source (data c)) \<noteq> []" and "kernel s = Some k"
  shows "execute_begin c s meta =
     Awaiting
       ((outputHidden_set False c)
          \<lparr> data := (data c)\<lparr>executionCount := None, trusted := True\<rparr>,
            prompt := ascii ''*'',
            outputArea_future := Some (next_future c),
            next_future := Suc (next_future c),
            trace := trace c @
              [PromptSet (ascii ''*''), TxBegin, Write (SetExecutionCount None),
               Write (SetTrusted True), TxEnd,
               KernelExecute (source (data c))
                 (obj_assign k_cellId (JStr (record_id (data c)))
                    (case meta of None \<Rightarrow> [] | Some m \<Rightarrow> m))] \<rparr>)
       (Some (next_future c))"
  using assms
  by (simp add: execute_begin_def Let_def setPrompt_def transaction_def OutputArea_execute_def
      outputHidden_set_frame)

lemma example_nonblank: "trim (source (data (Cell_new Code example_data))) \<noteq> []"
  by (simp add: Cell_new_def example_data_def trim_def js_whitespace_def ascii_def)

text \<open>
  C3. When the source is blank after trimming, or the session has no kernel,
  \<open>CodeCell.execute\<close> returns at once with \<open>undefined\<close> and no error, whatever the kernel
  would have answered: in one transaction it has set the execution count to null and
  cleared the outputs, and it has sent no request to the kernel.
\<close>

theorem execute_blank_or_no_kernel:
  assumes "trim (source (data c)) = [] \<or> kernel s = None"
  shows "execute_begin c s meta = Returned (execute_clear c)
         \<and> execute c s meta during out = (execute_clear c, Inr None)
         \<and> executionCount (data (execute_clear c)) = None
         \<and> outputs (data (execute_clear c)) = []
         \<and> new_events c (execute_clear c) =
             [TxBegin, Write (SetExecutionCount None), Write ClearOutputs, TxEnd]
         \<and> (\<forall>code m. KernelExecute code m \<notin> set (new_events c (execute_clear c)))
         \<and> outputArea_future (execute_clear c) = outputArea_future c"
  using assms
  by (auto simp add: execute_begin_def execute_def execute_clear_eq new_events_def Let_def
      split: option.splits)

theorem execute_blank_or_no_kernel_witness:
  "trim (source (data (Cell_new Code blank_data))) = []
   \<and> execute (Cell_new Code blank_data) example_session None id
        (Resolved \<lparr> execution_count = Some 3 \<rparr>)
       = (execute_clear (Cell_new Code blank_data), Inr None)
   \<and> kernel \<lparr> kernel = None \<rparr> = None
   \<and> execute (Cell_new Code example_data) \<lparr> kernel = None \<rparr> None id
        (Resolved \<lparr> execution_count = Some 3 \<rparr>)
       = (execute_clear (Cell_new Code example_data), Inr None)"
proof -
  have h1: "trim (source (data (Cell_new Code blank_data))) = []"
    by (simp add: Cell_new_def blank_data_def trim_def js_whitespace_def)
  have h2: "kernel \<lparr> kernel = None \<rparr> = None"
    by simp
  from execute_blank_or_no_kernel [of "Cell_new Code blank_data" example_session None id
         "Resolved \<lparr> execution_count = Some 3 \<rparr>"]
       execute_blank_or_no_kernel [of "Cell_new Code example_data" "\<lparr> kernel = None \<rparr>" None id
         "Resolved \<lparr> execution_count = Some 3 \<rparr>"]
       h1 h2
  show ?thesis
    by blast
qed

text \<open>
  C2, as the code has it. With non-blank source and a live kernel, by the time the request
  is submitted the output has been revealed, the prompt is the busy marker \<open>*\<close>, the
  execution count is null and the record is trusted. The two writes to the record are
  made inside one transaction, the only one of this phase. Revealing the output and
  setting the prompt are view updates made before that transaction opens: the prompt is
  set ahead of the begin of the transaction, and revealing the output touches neither the
  record nor the trace. The request to the kernel follows the transaction.
\<close>

theorem execute_pre_execution_state:
  assumes "trim (source (data c)) \<noteq> []" and "kernel s = Some k"
  shows "execute_begin c s meta =
           Awaiting (cell_of (execute_begin c s meta)) (Some (next_future c))
   \<and> \<not> outputHidden (cell_of (execute_begin c s meta))
   \<and> prompt (cell_of (execute_begin c s meta)) = ascii ''*''
   \<and> executionCount (data (cell_of (execute_begin c s meta))) = None
   \<and> trusted (data (cell_of (execute_begin c s meta)))
   \<and> new_events c (cell_of (execute_begin c s meta)) =
        [PromptSet (ascii ''*''), TxBegin, Write (SetExecutionCount None),
         Write (SetTrusted True), TxEnd,
         KernelExecute (source (data c))
           (obj_assign k_cellId (JStr (record_id (data c)))
              (case meta of None \<Rightarrow> [] | Some m \<Rightarrow> m))]
   \<and> inside_transaction (new_events c (cell_of (execute_begin c s meta))) =
        [Write (SetExecutionCount None), Write (SetTrusted True)]
   \<and> transactions (new_events c (cell_of (execute_begin c s meta))) = 1
   \<and> trace (outputHidden_set False c) = trace c
   \<and> data (outputHidden_set False c) = data c"
  by (simp add: execute_begin_submits [OF assms] new_events_def inside_transaction_def
      transactions_def outputHidden_set_frame)

theorem execute_pre_execution_state_witness:
  "trim (source (data (Cell_new Code example_data))) \<noteq> []
   \<and> kernel example_session = Some \<lparr> kernel_id = 7 \<rparr>
   \<and> prompt (cell_of (execute_begin (Cell_new Code example_data) example_session None))
       = ascii ''*''
   \<and> inside_transaction (new_events (Cell_new Code example_data)
        (cell_of (execute_begin (Cell_new Code example_data) example_session None))) =
        [Write (SetExecutionCount None), Write (SetTrusted True)]"
proof -
  have h1: "trim (source (data (Cell_new Code example_data))) \<noteq> []"
    by (rule example_nonblank)
  have h2: "kernel example_session = Some \<lparr> kernel_id = 7 \<rparr>"
    by (simp add: example_session_def)
  from execute_pre_execution_state [OF h1 h2, of None] h1 h2 show ?thesis
    by blast
qed

text \<open>
  C2 as stated fails: not all pre-execution changes are inside the transaction. In the
  run of a fresh code cell the prompt is set to \<open>*\<close>, and that event is not among the
  events inside a transaction.
\<close>

theorem execute_transaction_counterexample:
  "PromptSet (ascii ''*'') \<in> set (new_events (Cell_new Code example_data)
        (cell_of (execute_begin (Cell_new Code example_data) example_session None)))
   \<and> PromptSet (ascii ''*'') \<notin> set (inside_transaction (new_events (Cell_new Code example_data)
        (cell_of (execute_begin (Cell_new Code example_data) example_session None))))"
proof -
  have h1: "trim (source (data (Cell_new Code example_data))) \<noteq> []"
    by (rule example_nonblank)
  have h2: "kernel example_session = Some \<lparr> kernel_id = 7 \<rparr>"
    by (simp add: example_session_def)
  show ?thesis
    by (simp add: execute_begin_submits [OF h1 h2] new_events_def inside_transaction_def)
qed

text \<open>
  The paths of the \<open>catch\<close> block on a cell that was disposed while the call waited: a
  reply cannot be written to the record, and a cancellation cannot read the output area.
\<close>

lemma execute_settle_disposed:
  assumes "isDisposed c"
  shows "execute_settle fut (Resolved msg) c = (c, Inl TypeError_null)"
    and "message e = ascii ''Canceled'' \<Longrightarrow>
         execute_settle fut (Rejected e) c = (c, Inl TypeError_null)"
    and "message e \<noteq> ascii ''Canceled'' \<Longrightarrow> execute_settle fut (Rejected e) c = (c, Inl e)"
  using assms by (simp_all add: execute_catch_def TypeError_null_def ascii_def)

text \<open>
  C1, as the code has it. When the submitted execution fails with an error and the cell
  has not been disposed meanwhile, the error is thrown to the caller unchanged, whatever
  it is, the recognized cancellation included. An error whose message is not \<open>Canceled\<close>
  leaves the cell as it was when the promise settled. For the message \<open>Canceled\<close> the
  prompt is reset to the empty string before the error is rethrown if the future of the
  output area is still the one captured at submission, which it is right after the
  submission; otherwise the cell is left as it was. Every submission has a future of its
  own: when another call, on the same session or another, has been submitted on the cell
  while the first one waited, the failure of the first leaves the cell as the second
  call left it, with the busy marker \<open>*\<close> as its prompt.
\<close>

theorem execute_error_propagates:
  assumes "trim (source (data c)) \<noteq> []" and "kernel s = Some k"
  shows "(message e \<noteq> ascii ''Canceled'' \<longrightarrow>
            execute c s meta during (Rejected e)
              = (during (cell_of (execute_begin c s meta)), Inl e))
   \<and> (message e = ascii ''Canceled''
        \<and> \<not> isDisposed (during (cell_of (execute_begin c s meta))) \<longrightarrow>
          execute c s meta during (Rejected e) =
            (if outputArea_future (during (cell_of (execute_begin c s meta)))
                  = Some (next_future c)
             then setPrompt [] (during (cell_of (execute_begin c s meta)))
             else during (cell_of (execute_begin c s meta)),
             Inl e))
   \<and> (message e = ascii ''Canceled''
        \<and> \<not> isDisposed (during (cell_of (execute_begin c s meta)))
        \<and> outputArea_future (during (cell_of (execute_begin c s meta))) = Some (next_future c)
        \<longrightarrow> prompt (fst (execute c s meta during (Rejected e))) = [])
   \<and> outputArea_future (cell_of (execute_begin c s meta)) = Some (next_future c)
   \<and> (\<not> isDisposed c \<and> kernel again = Some k_again \<longrightarrow>
        execute c s meta (\<lambda>x. cell_of (execute_begin x again meta_again)) (Rejected e)
          = (cell_of (execute_begin (cell_of (execute_begin c s meta)) again meta_again), Inl e)
        \<and> prompt (cell_of (execute_begin (cell_of (execute_begin c s meta)) again meta_again))
            = ascii ''*'')"
proof -
  let ?first = "cell_of (execute_begin c s meta)"
  let ?second = "cell_of (execute_begin ?first again meta_again)"
  note first = execute_begin_submits [OF assms, of meta]
  have other: "message e \<noteq> ascii ''Canceled'' \<longrightarrow>
      execute c s meta during (Rejected e) = (during ?first, Inl e)"
    by (simp add: execute_def first execute_catch_def)
  have canceled: "message e = ascii ''Canceled'' \<and> \<not> isDisposed (during ?first) \<longrightarrow>
      execute c s meta during (Rejected e) =
        (if outputArea_future (during ?first) = Some (next_future c)
         then setPrompt [] (during ?first) else during ?first, Inl e)"
    by (simp add: execute_def first execute_catch_def)
  have reset: "message e = ascii ''Canceled'' \<and> \<not> isDisposed (during ?first)
      \<and> outputArea_future (during ?first) = Some (next_future c)
      \<longrightarrow> prompt (fst (execute c s meta during (Rejected e))) = []"
    by (simp add: execute_def first execute_catch_def setPrompt_def)
  have captured: "outputArea_future ?first = Some (next_future c)"
    by (simp add: first)
  have rerun: "\<not> isDisposed c \<and> kernel again = Some k_again \<longrightarrow>
      execute c s meta (\<lambda>x. cell_of (execute_begin x again meta_again)) (Rejected e)
        = (?second, Inl e)
      \<and> prompt ?second = ascii ''*''"
  proof (intro impI, elim conjE)
    assume live: "\<not> isDisposed c" and again: "kernel again = Some k_again"
    have nonblank: "trim (source (data ?first)) \<noteq> []"
      using assms(1) by (simp add: first)
    note second = execute_begin_submits [OF nonblank again, of meta_again]
    have fut: "outputArea_future ?second = Some (next_future ?first)"
      by (simp add: second)
    have "next_future ?first = Suc (next_future c)"
      by (simp add: first)
    with fut have stale: "outputArea_future ?second \<noteq> Some (next_future c)"
      by simp
    have "isDisposed ?first = isDisposed c"
      by (simp add: first outputHidden_set_frame)
    moreover have "isDisposed ?second = isDisposed ?first"
      by (simp add: second outputHidden_set_frame)
    ultimately have alive: "\<not> isDisposed ?second"
      using live by simp
    have star: "prompt ?second = ascii ''*''"
      by (simp add: second)
    have settle: "execute_catch (Some (next_future c)) e ?second = (?second, Inl e)"
      using stale alive by (simp add: execute_catch_def)
    have "execute c s meta (\<lambda>x. cell_of (execute_begin x again meta_again)) (Rejected e)
        = (?second, Inl e)"
      using settle by (simp add: execute_def first)
    with star
    show "execute c s meta (\<lambda>x. cell_of (execute_begin x again meta_again)) (Rejected e)
        = (?second, Inl e) \<and> prompt ?second = ascii ''*''"
      by simp
  qed
  show ?thesis
    by (intro conjI other canceled reset captured rerun)
qed

theorem execute_error_propagates_witness:
  "trim (source (data (Cell_new Code example_data))) \<noteq> []
   \<and> kernel example_session = Some \<lparr> kernel_id = 7 \<rparr>
   \<and> \<not> isDisposed (Cell_new Code example_data)
   \<and> snd (execute (Cell_new Code example_data) example_session None id
            (Rejected (Error (ascii ''Kernel died'')))) = Inl (Error (ascii ''Kernel died''))
   \<and> prompt (fst (execute (Cell_new Code example_data) example_session None id
            (Rejected (Error (ascii ''Kernel died''))))) = ascii ''*''
   \<and> prompt (fst (execute (Cell_new Code example_data) example_session None id
            (Rejected Canceled))) = []
   \<and> prompt (fst (execute (Cell_new Code example_data) example_session None
            (\<lambda>x. cell_of (execute_begin x example_session None)) (Rejected Canceled)))
       = ascii ''*''"
proof -
  let ?fresh = "Cell_new Code example_data"
  let ?first = "cell_of (execute_begin ?fresh example_session None)"
  let ?died = "Error (ascii ''Kernel died'')"
  have h1: "trim (source (data ?fresh)) \<noteq> []"
    by (rule example_nonblank)
  have h2: "kernel example_session = Some \<lparr> kernel_id = 7 \<rparr>"
    by (simp add: example_session_def)
  have live: "\<not> isDisposed ?fresh"
    by (simp add: Cell_new_def)
  have alive: "\<not> isDisposed (id ?first)"
    using live by (simp add: execute_begin_submits [OF h1 h2] outputHidden_set_frame)
  have star: "prompt (id ?first) = ascii ''*''"
    by (simp add: execute_begin_submits [OF h1 h2])
  have ne: "message ?died \<noteq> ascii ''Canceled''"
    by (simp add: ascii_def)
  have msg: "message Canceled = ascii ''Canceled''"
    by (simp add: Canceled_def)
  have died: "snd (execute ?fresh example_session None id (Rejected ?died)) = Inl ?died
      \<and> prompt (fst (execute ?fresh example_session None id (Rejected ?died))) = ascii ''*''"
    using execute_error_propagates
      [OF h1 h2, where e = ?died and meta = None and during = id
         and again = example_session and k_again = "\<lparr> kernel_id = 7 \<rparr>" and meta_again = None]
      ne star
    unfolding id_apply by simp
  have reset: "prompt (fst (execute ?fresh example_session None id (Rejected Canceled))) = []"
    using execute_error_propagates
      [OF h1 h2, where e = Canceled and meta = None and during = id
         and again = example_session and k_again = "\<lparr> kernel_id = 7 \<rparr>" and meta_again = None]
      msg alive
    unfolding id_apply by blast
  have rerun: "prompt (fst (execute ?fresh example_session None
      (\<lambda>x. cell_of (execute_begin x example_session None)) (Rejected Canceled))) = ascii ''*''"
    using execute_error_propagates
      [OF h1 h2, where e = Canceled and meta = None and during = id
         and again = example_session and k_again = "\<lparr> kernel_id = 7 \<rparr>" and meta_again = None]
      live h2
    unfolding id_apply by simp
  from h1 h2 live died reset rerun show ?thesis
    by blast
qed

text \<open>
  C1 as stated fails: the recognized cancellation is not absorbed. A fresh code cell is
  executed, nothing else happens while it waits, and the promise is rejected with the
  message \<open>Canceled\<close>: the prompt is reset to the empty string and the call still ends by
  throwing that error to its caller.
\<close>

theorem execute_cancel_counterexample:
  "snd (execute (Cell_new Code example_data) example_session None id (Rejected Canceled))
     = Inl Canceled
   \<and> prompt (fst (execute (Cell_new Code example_data) example_session None id
        (Rejected Canceled))) = []"
proof -
  let ?fresh = "Cell_new Code example_data"
  have h1: "trim (source (data ?fresh)) \<noteq> []"
    by (rule example_nonblank)
  have h2: "kernel example_session = Some \<lparr> kernel_id = 7 \<rparr>"
    by (simp add: example_session_def)
  note first = execute_begin_submits [OF h1 h2, of None]
  have live: "\<not> isDisposed ?fresh"
    by (simp add: Cell_new_def)
  have alive: "\<not> isDisposed (cell_of (execute_begin ?fresh example_session None))"
    using live by (simp add: first outputHidden_set_frame)
  show ?thesis
    using alive
    by (simp add: execute_def first execute_catch_def setPrompt_def Canceled_def)
qed

section \<open>The widget arrangement is preserved\<close>

lemma arrangement_field_updates [simp]:
  "arrangement (c\<lparr>readOnly := v\<rparr>) = arrangement c"
  "arrangement (c\<lparr>syncEditable := v\<rparr>) = arrangement c"
  "arrangement (c\<lparr>syncCollapse := v\<rparr>) = arrangement c"
  "arrangement (c\<lparr>syncScrolled := v\<rparr>) = arrangement c"
  "arrangement (c\<lparr>outputsScrolled := w\<rparr>) = arrangement c"
  "arrangement (c\<lparr>data := d\<rparr>) = arrangement c"
  "arrangement (c\<lparr>outputArea_future := f\<rparr>) = arrangement c"
  "arrangement (c\<lparr>next_future := n\<rparr>) = arrangement c"
  "arrangement (c\<lparr>isDisposed := b\<rparr>) = arrangement c"
  "arrangement (c\<lparr>trace := tr\<rparr>) = arrangement c"
  by (simp_all add: arrangement_def)

lemma transaction_frame [simp]:
  "arrangement (transaction ws c) = arrangement c" "ctype (transaction ws c) = ctype c"
  by (simp_all add: transaction_def arrangement_def)

lemma update_frame [simp]:
  "arrangement (update c) = arrangement c" "ctype (update c) = ctype c"
  by (simp_all add: update_def arrangement_def)

lemma setPrompt_frame [simp]:
  "arrangement (setPrompt v c) = arrangement c" "ctype (setPrompt v c) = ctype c"
  by (simp_all add: setPrompt_def arrangement_def)

lemma saveEditableState_frame [simp]:
  "arrangement (saveEditableState c) = arrangement c" "ctype (saveEditableState c) = ctype c"
  by (simp_all add: saveEditableState_eq)

lemma readOnly_set_frame [simp]:
  "arrangement (readOnly_set v c) = arrangement c" "ctype (readOnly_set v c) = ctype c"
  by (simp_all add: readOnly_set.simps)

lemma loadEditableState_frame [simp]:
  "arrangement (loadEditableState c) = arrangement c" "ctype (loadEditableState c) = ctype c"
  by (simp_all add: loadEditableState.simps)

lemma onMetadataChanged_frame [simp]:
  "arrangement (onMetadataChanged args c) = arrangement c"
  "ctype (onMetadataChanged args c) = ctype c"
  by (simp_all add: onMetadataChanged_eq)

lemma onExecutionCountChanged_frame [simp]:
  "arrangement (onExecutionCountChanged n c) = arrangement c"
  "ctype (onExecutionCountChanged n c) = ctype c"
  by (simp_all add: onExecutionCountChanged_def split: option.splits)

lemma ctype_outputHidden_set [simp]: "ctype (outputHidden_set v c) = ctype c"
  by (simp add: outputHidden_set_def Let_def)

lemma ctype_inputHidden_set [simp]: "ctype (inputHidden_set v c) = ctype c"
  by (simp add: inputHidden_set_def handleInputHidden_def CodeCell_handleInputHidden_eq
      Cell_handleInputHidden_def Let_def)

lemma inputHidden_set_ok:
  "arrangement_ok c \<Longrightarrow> arrangement_ok (inputHidden_set v c)"
  by (cases v; cases "inputHidden c"; cases "outputHidden c"; cases "ctype c = Code")
     (simp_all add: arrangement_ok_def arrangement_wf_def arrangement_def inputHidden_set_def
        handleInputHidden_def CodeCell_handleInputHidden_eq Cell_handleInputHidden_def
        addWidget_def removeWidget_def Let_def)

lemma outputHidden_set_ok:
  "arrangement_ok c \<Longrightarrow> ctype c = Code \<Longrightarrow> arrangement_ok (outputHidden_set v c)"
  by (cases v; cases "inputHidden c"; cases "outputHidden c")
     (simp_all add: arrangement_ok_def arrangement_wf_def arrangement_def outputHidden_set_def
        addWidget_def removeWidget_def Let_def)

lemma execute_begin_ok:
  assumes ok: "arrangement_ok c" and code: "ctype c = Code"
  shows "arrangement_ok (cell_of (execute_begin c s meta))"
proof -
  have cleared: "arrangement_ok (execute_clear c)"
    using ok by (simp add: execute_clear_def arrangement_ok_def)
  have submitted: "arrangement_ok
      (OutputArea_execute code k meta'
        (onExecutionCountChanged None
          (transaction ws (setPrompt p (outputHidden_set False c)))))" for code k meta' ws p
    using outputHidden_set_ok [OF ok code, of False]
    by (simp add: OutputArea_execute_def arrangement_ok_def)
  show ?thesis
    using cleared submitted by (simp add: execute_begin_def Let_def split: option.splits)
qed

lemma execute_settle_ok:
  "arrangement_ok c \<Longrightarrow> arrangement_ok (fst (execute_settle fut out c))"
  by (cases out) (simp_all add: execute_catch_def arrangement_ok_def)

lemma external_write_ok:
  "arrangement_ok c \<Longrightarrow> arrangement_ok (external_write w c)"
  by (cases w) (auto simp add: arrangement_ok_def)

lemma cell_step_ok:
  assumes ok: "arrangement_ok c"
  shows "arrangement_ok (cell_step op c)"
proof (cases op)
  case InitializeState
  then show ?thesis
    using ok
    by (auto simp add: initializeState_def CodeCell_initializeState_def
        Cell_initializeState_def loadScrolledState_def arrangement_ok_def Let_def)
next
  case (SetSyncEditable v)
  then show ?thesis
    using ok by (auto simp add: syncEditable_set_def arrangement_ok_def)
next
  case (SetSyncCollapse v)
  then show ?thesis
    using ok by (auto simp add: syncCollapse_set_def arrangement_ok_def)
next
  case (SetOutputsScrolled v)
  then show ?thesis
    using ok
    by (auto simp add: outputsScrolled_set_def saveScrolledState_def arrangement_ok_def Let_def)
next
  case (SetSyncScrolled v)
  then show ?thesis
    using ok
    by (auto simp add: syncScrolled_set_def loadScrolledState_def arrangement_ok_def)
next
  case (SetReadOnly v)
  then show ?thesis
    using ok by (simp add: arrangement_ok_def)
next
  case SaveEditableState
  then show ?thesis
    using ok by (simp add: arrangement_ok_def)
next
  case LoadEditableState
  then show ?thesis
    using ok by (simp add: arrangement_ok_def)
next
  case (EditSource s)
  then show ?thesis
    using ok by (simp add: arrangement_ok_def)
qed (simp_all add: ok inputHidden_set_ok outputHidden_set_ok execute_begin_ok
      execute_settle_ok external_write_ok)

lemma cell_run_ok: "arrangement_ok c \<Longrightarrow> arrangement_ok (cell_run ops c)"
  unfolding cell_run_def
  by (induction ops arbitrary: c) (simp_all add: cell_step_ok)

lemma Cell_new_ok: "arrangement_ok (Cell_new t d)"
  by (simp add: arrangement_ok_def arrangement_wf_def arrangement_def Cell_new_def)

lemma toggle_twice:
  "arrangement_ok c \<Longrightarrow>
   arrangement (inputHidden_set (inputHidden c) (inputHidden_set (\<not> inputHidden c) c))
     = arrangement c"
  by (cases "inputHidden c"; cases "outputHidden c"; cases "ctype c = Code")
     (simp_all add: arrangement_ok_def arrangement_wf_def arrangement_def inputHidden_set_def
        handleInputHidden_def CodeCell_handleInputHidden_eq Cell_handleInputHidden_def
        addWidget_def removeWidget_def Let_def)

lemma inputWrapper_after_set:
  "arrangement_ok c \<Longrightarrow>
   inputWrapper (inputHidden_set v c) =
     [InputCollapserW, if v then InputPlaceholderW else InputAreaW]"
  by (cases v; cases "inputHidden c"; cases "ctype c = Code")
     (simp_all add: arrangement_ok_def arrangement_wf_def arrangement_def inputHidden_set_def
        handleInputHidden_def CodeCell_handleInputHidden_eq Cell_handleInputHidden_def
        addWidget_def removeWidget_def Let_def)

text \<open>
  C8. In every state a cell reaches from its construction (of any class, on any record,
  through any sequence of the operations above), setting \<open>inputHidden\<close> to the opposite
  value and back restores the widget arrangement: the input wrapper holds what it held,
  and the output wrapper and its visibility are as before. After the setter the input
  wrapper holds the collapser and the input area when the input is shown, and the
  collapser and the placeholder when it is hidden. The same holds in every state whose
  arrangement is well formed.
\<close>

theorem inputHidden_toggle_involution:
  "arrangement
     (inputHidden_set (inputHidden (cell_run ops (Cell_new t d)))
        (inputHidden_set (\<not> inputHidden (cell_run ops (Cell_new t d)))
           (cell_run ops (Cell_new t d))))
     = arrangement (cell_run ops (Cell_new t d))
   \<and> inputWrapper (inputHidden_set v (cell_run ops (Cell_new t d))) =
       [InputCollapserW, if v then InputPlaceholderW else InputAreaW]
   \<and> (arrangement_ok c \<longrightarrow>
        arrangement (inputHidden_set (inputHidden c) (inputHidden_set (\<not> inputHidden c) c))
          = arrangement c)"
proof -
  have reached: "arrangement_ok (cell_run ops (Cell_new t d))"
    by (rule cell_run_ok [OF Cell_new_ok])
  show ?thesis
    using toggle_twice [OF reached] inputWrapper_after_set [OF reached, of v]
      toggle_twice [of c]
    by blast
qed

theorem inputHidden_toggle_involution_witness:
  "arrangement_ok (Cell_new Code example_data)
   \<and> arrangement
        (inputHidden_set False (inputHidden_set True (Cell_new Code example_data)))
       = arrangement (Cell_new Code example_data)
   \<and> inputWrapper (inputHidden_set True (Cell_new Code example_data))
       = [InputCollapserW, InputPlaceholderW]"
proof -
  have ok: "arrangement_ok (Cell_new Code example_data)"
    by (rule Cell_new_ok)
  have shown: "inputHidden (Cell_new Code example_data) = False"
    by (simp add: Cell_new_def)
  have run: "cell_run [] (Cell_new Code example_data) = Cell_new Code example_data"
    by (simp add: cell_run_def)
  from inputHidden_toggle_involution
         [of "[]" Code example_data True "Cell_new Code example_data"] ok
  show ?thesis
    by (simp add: shown run)
qed

section \<open>Markdown rendering\<close>

lemma DEFAULT_MARKDOWN_TEXT_nonempty: "DEFAULT_MARKDOWN_TEXT \<noteq> []"
  by (simp add: DEFAULT_MARKDOWN_TEXT_def)

lemma text_to_render_nonempty: "text_to_render m \<noteq> []"
  by (simp add: text_to_render_def DEFAULT_MARKDOWN_TEXT_nonempty)

lemma updateRenderedInput_same:
  "text_to_render m = prevText m \<Longrightarrow> updateRenderedInput m = (m, Promise_resolved)"
  by (simp add: updateRenderedInput_def)

lemma updateRenderedInput_changed:
  assumes "text_to_render m \<noteq> prevText m"
  shows "updateRenderedInput m =
     (m\<lparr> prevText := text_to_render m,
         renderer := Some ((case renderer m of None \<Rightarrow> [] | Some ms \<Rightarrow> ms)
                            @ [MimeModel [(ascii ''text/markdown'', text_to_render m)]]),
         renderers_created := renderers_created m + (if renderer m = None then 1 else 0) \<rparr>,
      Promise_renderModel (MimeModel [(ascii ''text/markdown'', text_to_render m)]))"
  using assms by (cases "renderer m") (simp_all add: updateRenderedInput_def Let_def)

lemma updateRenderedInput_ok:
  assumes ok: "preview_ok m"
  shows "preview_ok (fst (updateRenderedInput m))
         \<and> preview (fst (updateRenderedInput m)) = Some (text_to_render m)"
proof (cases "text_to_render m = prevText m")
  case True
  then show ?thesis
    using ok by (simp add: updateRenderedInput_same preview_ok_def)
next
  case False
  from ok obtain ms where ms: "renderer m = Some ms"
    by (cases "renderer m") (simp_all add: preview_ok_def preview_def)
  show ?thesis
    using ok ms
    by (simp add: updateRenderedInput_changed [OF False] preview_ok_def preview_def
        text_to_render_nonempty)
qed

lemma preview_ok_field_updates [simp]:
  "preview_ok (renderInput m) = preview_ok m" "preview_ok (showEditor m) = preview_ok m"
  "preview_ok (m\<lparr>rendered := v\<rparr>) = preview_ok m"
  "preview_ok (m\<lparr>base := b\<rparr>) = preview_ok m"
  by (simp_all add: preview_ok_def preview_def renderInput_def showEditor_def)

lemma handleRendered_ok: "preview_ok m \<Longrightarrow> preview_ok (handleRendered m)"
  by (simp add: handleRendered_def updateRenderedInput_ok)

lemma markdown_step_ok: "preview_ok m \<Longrightarrow> preview_ok (markdown_step op m)"
  by (cases op) (simp_all add: rendered_set_def handleRendered_ok)

lemma markdown_run_ok: "preview_ok m \<Longrightarrow> preview_ok (markdown_run ops m)"
  unfolding markdown_run_def
  by (induction ops arbitrary: m) (simp_all add: markdown_step_ok)

lemma MarkdownCell_new_eq:
  "MarkdownCell_new d =
     \<lparr> base = Cell_new Markdown d, rendered = True,
       prevText = (if source d = [] then DEFAULT_MARKDOWN_TEXT else source d),
       renderer = Some [MimeModel [(ascii ''text/markdown'',
                    if source d = [] then DEFAULT_MARKDOWN_TEXT else source d)]],
       renderers_created = 1, inputArea_rendered = True \<rparr>"
proof -
  let ?m0 = "\<lparr> base = Cell_new Markdown d, rendered = True, prevText = [], renderer = None,
         renderers_created = 0, inputArea_rendered = False \<rparr>"
  have first: "text_to_render ?m0 \<noteq> prevText ?m0"
    by (simp add: text_to_render_nonempty)
  have chosen: "text_to_render ?m0 = (if source d = [] then DEFAULT_MARKDOWN_TEXT else source d)"
    by (simp add: text_to_render_def Cell_new_def)
  show ?thesis
    unfolding MarkdownCell_new_def updateRenderedInput_changed [OF first] chosen
    by (simp add: renderInput_def)
qed

lemma MarkdownCell_new_ok: "preview_ok (MarkdownCell_new d)"
  by (simp add: MarkdownCell_new_eq preview_ok_def preview_def DEFAULT_MARKDOWN_TEXT_nonempty)

text \<open>
  C7. \<open>_updateRenderedInput\<close> renders the source text, or the fixed placeholder when the
  source is empty. When that text equals the text rendered last, nothing happens: the
  cell is unchanged and the returned promise is already resolved. Otherwise the text is
  wrapped as a \<open>text/markdown\<close> mime model and handed to the renderer, which is created
  only if there is none yet, the text is remembered as rendered last, and the promise
  returned is that of the rendering. The placeholder is not empty. In every state a
  markdown cell reaches from its construction the preview shows a non-empty text, one
  renderer has been created, and an update with empty source shows the placeholder.
\<close>

theorem updateRenderedInput_rendering:
  "(text_to_render m = prevText m \<longrightarrow> updateRenderedInput m = (m, Promise_resolved))
   \<and> (text_to_render m \<noteq> prevText m \<longrightarrow>
        updateRenderedInput m =
          (m\<lparr> prevText := text_to_render m,
              renderer := Some ((case renderer m of None \<Rightarrow> [] | Some ms \<Rightarrow> ms)
                                 @ [MimeModel [(ascii ''text/markdown'', text_to_render m)]]),
              renderers_created :=
                renderers_created m + (if renderer m = None then 1 else 0) \<rparr>,
           Promise_renderModel (MimeModel [(ascii ''text/markdown'', text_to_render m)])))
   \<and> text_to_render m =
        (if source (data (base m)) = [] then DEFAULT_MARKDOWN_TEXT else source (data (base m)))
   \<and> DEFAULT_MARKDOWN_TEXT \<noteq> []
   \<and> preview (markdown_run ops (MarkdownCell_new d)) \<noteq> None
   \<and> preview (markdown_run ops (MarkdownCell_new d)) \<noteq> Some []
   \<and> renderers_created (markdown_run ops (MarkdownCell_new d)) = 1
   \<and> (source (data (base (markdown_run ops (MarkdownCell_new d)))) = [] \<longrightarrow>
        preview (fst (updateRenderedInput (markdown_run ops (MarkdownCell_new d))))
          = Some DEFAULT_MARKDOWN_TEXT)"
proof -
  have reached: "preview_ok (markdown_run ops (MarkdownCell_new d))"
    by (rule markdown_run_ok [OF MarkdownCell_new_ok])
  have same: "text_to_render m = prevText m \<longrightarrow> updateRenderedInput m = (m, Promise_resolved)"
    by (simp add: updateRenderedInput_same)
  have changed: "text_to_render m \<noteq> prevText m \<longrightarrow>
        updateRenderedInput m =
          (m\<lparr> prevText := text_to_render m,
              renderer := Some ((case renderer m of None \<Rightarrow> [] | Some ms \<Rightarrow> ms)
                                 @ [MimeModel [(ascii ''text/markdown'', text_to_render m)]]),
              renderers_created :=
                renderers_created m + (if renderer m = None then 1 else 0) \<rparr>,
           Promise_renderModel (MimeModel [(ascii ''text/markdown'', text_to_render m)]))"
    using updateRenderedInput_changed [of m] by blast
  have chosen: "text_to_render m =
        (if source (data (base m)) = [] then DEFAULT_MARKDOWN_TEXT else source (data (base m)))"
    by (simp add: text_to_render_def)
  have shown: "preview (markdown_run ops (MarkdownCell_new d)) \<noteq> None"
    "preview (markdown_run ops (MarkdownCell_new d)) \<noteq> Some []"
    "renderers_created (markdown_run ops (MarkdownCell_new d)) = 1"
    using reached by (simp_all add: preview_ok_def)
  have placeholder: "source (data (base (markdown_run ops (MarkdownCell_new d)))) = [] \<longrightarrow>
        preview (fst (updateRenderedInput (markdown_run ops (MarkdownCell_new d))))
          = Some DEFAULT_MARKDOWN_TEXT"
    using updateRenderedInput_ok [OF reached] by (simp add: text_to_render_def)
  show ?thesis
    by (intro conjI same changed chosen DEFAULT_MARKDOWN_TEXT_nonempty shown placeholder)
qed

theorem updateRenderedInput_rendering_witness:
  "source (data (base (markdown_run [] (MarkdownCell_new empty_data)))) = []
   \<and> preview (fst (updateRenderedInput (markdown_run [] (MarkdownCell_new empty_data))))
       = Some DEFAULT_MARKDOWN_TEXT
   \<and> text_to_render (MarkdownCell_new empty_data) = prevText (MarkdownCell_new empty_data)
   \<and> updateRenderedInput (MarkdownCell_new empty_data)
       = (MarkdownCell_new empty_data, Promise_resolved)"
proof -
  have src: "source (data (base (markdown_run [] (MarkdownCell_new empty_data)))) = []"
    by (simp add: markdown_run_def MarkdownCell_new_eq Cell_new_def empty_data_def)
  have same: "text_to_render (MarkdownCell_new empty_data) = prevText (MarkdownCell_new empty_data)"
    by (simp add: MarkdownCell_new_eq text_to_render_def Cell_new_def empty_data_def)
  from updateRenderedInput_rendering [of "MarkdownCell_new empty_data" "[]" empty_data] src same
  show ?thesis
    by blast
qed

end
